theory Spec2Isabelle
  imports Main "HOL-Library.Word"
begin

section \<open>JavaScript values\<close>

text \<open>
  A JavaScript string is a sequence of 16-bit code units. String literals of the
  source are ASCII and are written with \<open>lit\<close>.
\<close>

type_synonym jschar = "16 word"
type_synonym jsstring = "jschar list"
type_synonym bytes = "8 word list"

definition lit :: "string \<Rightarrow> jsstring" where
  "lit s = map (\<lambda>c. of_nat (of_char c)) s"

text \<open>
  The values a request body and its properties can have: \<open>undefined\<close> and what JSON
  parses to. Of a number only its being zero matters to the code below (\<open>0\<close> is
  falsy); the payload is kept as an integer.
\<close>

datatype jsval =
    JUndefined
  | JNull
  | JBool bool
  | JNum int
  | JStr jsstring
  | JArr "jsval list"
  | JObj "(jsstring \<times> jsval) list"

datatype js_error =
    TypeError
  | URIError
  | SdkError
  | PipelineError
  | IoError

text \<open>\<open>ToBoolean\<close>, and \<open>!v\<close>.\<close>

fun truthy :: "jsval \<Rightarrow> bool" where
  "truthy JUndefined = False"
| "truthy JNull = False"
| "truthy (JBool b) = b"
| "truthy (JNum n) = (n \<noteq> 0)"
| "truthy (JStr s) = (s \<noteq> [])"
| "truthy (JArr xs) = True"
| "truthy (JObj kvs) = True"

definition falsy :: "jsval \<Rightarrow> bool" where
  "falsy v = (\<not> truthy v)"

text \<open>
  Reading a property the code asks for by name: an object has the properties it was
  parsed with, every other value has none of them.
\<close>

fun get_prop :: "jsval \<Rightarrow> jsstring \<Rightarrow> jsval" where
  "get_prop (JObj kvs) k = (case map_of kvs k of None \<Rightarrow> JUndefined | Some v \<Rightarrow> v)"
| "get_prop v k = JUndefined"

text \<open>
  \<open>a || undefined\<close> and \<open>a || d\<close> on a string that may be \<open>undefined\<close> (\<open>None\<close>):
  the empty string is falsy as well.
\<close>

definition or_undefined :: "jsstring option \<Rightarrow> jsstring option" where
  "or_undefined a = (case a of None \<Rightarrow> None | Some s \<Rightarrow> if s = [] then None else Some s)"

definition or_default :: "jsstring option \<Rightarrow> jsstring \<Rightarrow> jsstring" where
  "or_default a d = (case or_undefined a of None \<Rightarrow> d | Some s \<Rightarrow> s)"

text \<open>A value inside a template literal: \<open>undefined\<close> prints as the word.\<close>

definition template :: "jsstring option \<Rightarrow> jsstring" where
  "template a = (case a of None \<Rightarrow> lit ''undefined'' | Some s \<Rightarrow> s)"

subsection \<open>String methods\<close>

text \<open>\<open>s.replace(/\/$/, '')\<close>: one trailing slash is removed.\<close>

definition strip_trailing_slash :: "jsstring \<Rightarrow> jsstring" where
  "strip_trailing_slash s = (if s \<noteq> [] \<and> last s = 0x2F then butlast s else s)"

definition endsWith :: "jsstring \<Rightarrow> jsstring \<Rightarrow> bool" where
  "endsWith s suf = (length suf \<le> length s \<and> drop (length s - length suf) s = suf)"

text \<open>
  The class \<open>\s\<close> of a regular expression without the unicode flag: the white space
  and line terminator code points, all of them single code units.
\<close>

definition is_space :: "jschar \<Rightarrow> bool" where
  "is_space c = (c = 0x09 \<or> c = 0x0A \<or> c = 0x0B \<or> c = 0x0C \<or> c = 0x0D \<or> c = 0x20
     \<or> c = 0xA0 \<or> c = 0x1680 \<or> (0x2000 \<le> c \<and> c \<le> 0x200A) \<or> c = 0x2028 \<or> c = 0x2029
     \<or> c = 0x202F \<or> c = 0x205F \<or> c = 0x3000 \<or> c = 0xFEFF)"

text \<open>\<open>s.replace(/\s+/g, '-')\<close>: every maximal run of white space becomes one hyphen.\<close>

function replace_spaces :: "jsstring \<Rightarrow> jsstring" where
  "replace_spaces [] = []"
| "replace_spaces (c # cs) =
     (if is_space c then 0x2D # replace_spaces (dropWhile is_space cs)
      else c # replace_spaces cs)"
  by pat_completeness auto
termination
  by (relation "measure length") (auto simp: less_Suc_eq_le length_dropWhile_le)

subsection \<open>encodeURI\<close>

text \<open>
  The characters \<open>encodeURI\<close> leaves alone: letters, digits, the marks
  \<open>- _ . ! ~ * ' ( )\<close>, the reserved characters \<open>; / ? : @ & = + $ ,\<close> and \<open>#\<close>.
\<close>

definition uri_unescaped :: "jschar \<Rightarrow> bool" where
  "uri_unescaped c = ((0x41 \<le> c \<and> c \<le> 0x5A) \<or> (0x61 \<le> c \<and> c \<le> 0x7A) \<or> (0x30 \<le> c \<and> c \<le> 0x39)
     \<or> c = 0x27 \<or> c \<in> set (lit ''-_.!~*();/?:@&=+$,#''))"

definition is_lead :: "jschar \<Rightarrow> bool" where
  "is_lead c = (0xD800 \<le> c \<and> c \<le> 0xDBFF)"

definition is_trail :: "jschar \<Rightarrow> bool" where
  "is_trail c = (0xDC00 \<le> c \<and> c \<le> 0xDFFF)"

definition utf8 :: "nat \<Rightarrow> nat list" where
  "utf8 cp =
     (if cp < 0x80 then [cp]
      else if cp < 0x800 then [0xC0 + cp div 64, 0x80 + cp mod 64]
      else if cp < 0x10000 then
        [0xE0 + cp div 4096, 0x80 + (cp div 64) mod 64, 0x80 + cp mod 64]
      else
        [0xF0 + cp div 262144, 0x80 + (cp div 4096) mod 64, 0x80 + (cp div 64) mod 64,
         0x80 + cp mod 64])"

definition hex_digit :: "nat \<Rightarrow> jschar" where
  "hex_digit d = (if d < 10 then of_nat (0x30 + d) else of_nat (0x41 + (d - 10)))"

definition percent :: "nat \<Rightarrow> jsstring" where
  "percent b = [0x25, hex_digit (b div 16), hex_digit (b mod 16)]"

definition escape :: "nat \<Rightarrow> jsstring" where
  "escape cp = concat (map percent (utf8 cp))"

definition prepend :: "jsstring \<Rightarrow> js_error + jsstring \<Rightarrow> js_error + jsstring" where
  "prepend p r = (case r of Inl e \<Rightarrow> Inl e | Inr s \<Rightarrow> Inr (p @ s))"

text \<open>
  \<open>encodeURI\<close> reads the string code point by code point; a surrogate without its
  partner throws a \<open>URIError\<close>.
\<close>

fun encodeURI :: "jsstring \<Rightarrow> js_error + jsstring" where
  "encodeURI [] = Inr []"
| "encodeURI (c # cs) =
     (if uri_unescaped c then prepend [c] (encodeURI cs)
      else if is_trail c then Inl URIError
      else if is_lead c then
        (case cs of
           [] \<Rightarrow> Inl URIError
         | d # ds \<Rightarrow>
             if is_trail d then
               prepend (escape ((unat c - 0xD800) * 0x400 + (unat d - 0xDC00) + 0x10000))
                 (encodeURI ds)
             else Inl URIError)
      else prepend (escape (unat c)) (encodeURI cs))"

section \<open>The outside world\<close>

text \<open>
  What the handlers do to the outside is recorded call by call; the world also holds
  the local files and the objects of the bucket.
\<close>

datatype call =
    GetSignedUrl "jsstring option" jsval nat
      \<comment> \<open>\<open>getSignedUrl\<close> of a \<open>GetObjectCommand\<close>: Bucket, Key, expiresIn\<close>
  | PutObjectCommand "jsstring option" jsstring bytes "jsstring option"
      \<comment> \<open>\<open>client.send\<close> of a \<open>PutObjectCommand\<close>: Bucket, Key, Body, ContentType\<close>
  | Ffmpeg "jsstring list" "jsstring list" "jsstring list" jsstring
      \<comment> \<open>inputs, complexFilter, outputOptions, the file given to \<open>save\<close>\<close>
  | ReadFile jsstring
  | UnlinkSync jsstring

datatype ffmpeg_result =
    Ended bytes
      \<comment> \<open>the \<open>end\<close> event: the output file is written\<close>
  | Errored "bytes option"
      \<comment> \<open>the \<open>error\<close> event, with what the engine left at the output path, if anything\<close>

record world =
  files :: "jsstring \<Rightarrow> bytes option"
  objects :: "jsstring \<Rightarrow> (bytes \<times> jsstring option) option"
  calls :: "call list"
  uuids_drawn :: nat

text \<open>
  The platform and the collaborators the code calls but does not define: \<open>uuidv4\<close>,
  \<open>os.tmpdir\<close>, \<open>path.join\<close>, the URL parser, the presigner and the client of the AWS
  SDK, the ffmpeg engine and the file system. Each is a parameter; a theorem that names
  no particular \<open>env\<close> holds whatever they answer. An answer may depend on how many
  calls were made before (two grants for one key need not be equal).
\<close>

record env =
  uuid_source :: "nat \<Rightarrow> jsstring"
  tmpdir :: jsstring
  path_join :: "jsstring \<Rightarrow> jsstring \<Rightarrow> jsstring"
  URL_hostname :: "jsstring \<Rightarrow> jsstring option"
    \<comment> \<open>\<open>new URL(s).hostname\<close>; \<open>None\<close> when the constructor throws\<close>
  presign :: "nat \<Rightarrow> call \<Rightarrow> jsstring option"
    \<comment> \<open>the URL \<open>getSignedUrl\<close> resolves to; \<open>None\<close> when it rejects\<close>
  send_ok :: "nat \<Rightarrow> call \<Rightarrow> bool"
  ffmpeg_run :: "nat \<Rightarrow> call \<Rightarrow> ffmpeg_result"
  read_ok :: "nat \<Rightarrow> bool"
  unlink_ok :: "nat \<Rightarrow> bool"

type_synonym 'a io = "world \<Rightarrow> (js_error + 'a) \<times> world"

definition ret :: "'a \<Rightarrow> 'a io" where
  "ret x w = (Inr x, w)"

definition lift :: "js_error + 'a \<Rightarrow> 'a io" where
  "lift r w = (r, w)"

text \<open>Sequencing inside a \<open>try\<close> block: a throw skips what follows.\<close>

definition and_then :: "'a io \<Rightarrow> ('a \<Rightarrow> 'b io) \<Rightarrow> 'b io" where
  "and_then m f w = (case m w of (Inl e, w') \<Rightarrow> (Inl e, w') | (Inr x, w') \<Rightarrow> f x w')"

text \<open>\<open>try { m } catch (e) {}\<close>\<close>

definition swallow :: "unit io \<Rightarrow> unit io" where
  "swallow m w = (case m w of (r, w') \<Rightarrow> (Inr (), w'))"

definition record_call :: "call \<Rightarrow> world \<Rightarrow> world" where
  "record_call c w = w\<lparr>calls := calls w @ [c]\<rparr>"

definition uuidv4 :: "env \<Rightarrow> jsstring io" where
  "uuidv4 env w = (Inr (uuid_source env (uuids_drawn w)), w\<lparr>uuids_drawn := Suc (uuids_drawn w)\<rparr>)"

definition readFile :: "env \<Rightarrow> jsstring \<Rightarrow> bytes io" where
  "readFile env path w =
     (case files w path of
        None \<Rightarrow> (Inl IoError, record_call (ReadFile path) w)
      | Some b \<Rightarrow>
          if read_ok env (length (calls w)) then (Inr b, record_call (ReadFile path) w)
          else (Inl IoError, record_call (ReadFile path) w))"

definition unlinkSync :: "env \<Rightarrow> jsstring \<Rightarrow> unit io" where
  "unlinkSync env path w =
     (case files w path of
        None \<Rightarrow> (Inl IoError, record_call (UnlinkSync path) w)
      | Some b \<Rightarrow>
          if unlink_ok env (length (calls w)) then
            (Inr (), (record_call (UnlinkSync path) w)\<lparr>files := (files w)(path := None)\<rparr>)
          else (Inl IoError, record_call (UnlinkSync path) w))"

section \<open>The object store client (r2.js)\<close>

text \<open>
  The class \<open>R2\<close>: its constructor (lines 14 to 28), \<open>putObject\<close> (36 to 46),
  \<open>publicUrl\<close> (53 to 62) and \<open>signedUrl\<close> (69 to 72). The fields of the configuration
  come from the environment, so each is a string or \<open>undefined\<close> (\<open>None\<close>).
\<close>

record cfg =
  cfg_accountId :: "jsstring option"
  cfg_accessKeyId :: "jsstring option"
  cfg_secretAccessKey :: "jsstring option"
  cfg_bucket :: "jsstring option"
  cfg_endpoint :: "jsstring option"

record s3_config =
  region :: jsstring
  s3_endpoint :: "jsstring option"
  forcePathStyle :: bool
  accessKeyId :: "jsstring option"
  secretAccessKey :: "jsstring option"

record R2 =
  bucket :: "jsstring option"
  accountId :: "jsstring option"
  endpoint :: "jsstring option"
  client :: s3_config

text \<open>
  The constructor copies the bucket and the account, strips one trailing slash from the
  endpoint and builds the client. Whether \<open>new S3Client\<close> accepts its configuration is
  the SDK's business and is a parameter; nothing else in the constructor can throw on a
  bag of strings.
\<close>

definition R2_constructor :: "(s3_config \<Rightarrow> bool) \<Rightarrow> cfg \<Rightarrow> js_error + R2" where
  "R2_constructor S3Client_accepts c =
     (let ep = map_option strip_trailing_slash (cfg_endpoint c);
          s3 = \<lparr>region = lit ''auto'', s3_endpoint = ep, forcePathStyle = True,
                accessKeyId = cfg_accessKeyId c, secretAccessKey = cfg_secretAccessKey c\<rparr>
      in if S3Client_accepts s3 then
           Inr \<lparr>bucket = cfg_bucket c, accountId = cfg_accountId c, endpoint = ep, client = s3\<rparr>
         else Inl SdkError)"

definition putObject :: "env \<Rightarrow> R2 \<Rightarrow> jsstring \<Rightarrow> bytes \<Rightarrow> jsstring option \<Rightarrow> jsstring io" where
  "putObject env this key body contentType w =
     (let cmd = PutObjectCommand (bucket this) key body (or_undefined contentType) in
      if send_ok env (length (calls w)) cmd then
        (Inr key, (record_call cmd w)\<lparr>objects := (objects w)(key \<mapsto> (body, or_undefined contentType))\<rparr>)
      else (Inl SdkError, record_call cmd w))"

text \<open>
  \<open>publicUrl\<close> calls \<open>new URL(this.endpoint)\<close> first, which turns its argument into a
  string and throws a \<open>TypeError\<close> when that is no URL; the parser is the parameter
  \<open>hostname_of\<close>. In the second branch \<open>this.endpoint.replace\<close> throws a \<open>TypeError\<close>
  on a missing endpoint before \<open>encodeURI\<close> runs.
\<close>

definition publicUrl :: "(jsstring \<Rightarrow> jsstring option) \<Rightarrow> R2 \<Rightarrow> jsstring \<Rightarrow> js_error + jsstring" where
  "publicUrl hostname_of this key =
     (case hostname_of (template (endpoint this)) of
        None \<Rightarrow> Inl TypeError
      | Some hostname \<Rightarrow>
          if endsWith hostname (lit ''.r2.cloudflarestorage.com'') then
            prepend (lit ''https://'' @ template (bucket this) @ lit ''.'' @ template (accountId this)
                       @ lit ''.r2.cloudflarestorage.com/'')
              (encodeURI key)
          else
            (case endpoint this of
               None \<Rightarrow> Inl TypeError
             | Some e \<Rightarrow> prepend (strip_trailing_slash e @ lit ''/'') (encodeURI key)))"

definition signedUrl :: "env \<Rightarrow> R2 \<Rightarrow> jsval \<Rightarrow> nat option \<Rightarrow> jsstring io" where
  "signedUrl env this key expiresSeconds w =
     (let cmd = GetSignedUrl (bucket this) key (case expiresSeconds of None \<Rightarrow> 300 | Some s \<Rightarrow> s) in
      case presign env (length (calls w)) cmd of
        None \<Rightarrow> (Inl SdkError, record_call cmd w)
      | Some url \<Rightarrow> (Inr url, record_call cmd w))"

section \<open>The HTTP handlers (server.js)\<close>

record response =
  status :: nat
  body :: "(jsstring \<times> jsval) list"

text \<open>
  \<open>res.status(n).json({...})\<close>; \<open>res.json\<close> alone answers 200. The body keeps the
  members of the object in the order the source writes them.
\<close>

definition json :: "nat \<Rightarrow> (jsstring \<times> jsval) list \<Rightarrow> response" where
  "json n members = \<lparr>status = n, body = members\<rparr>"

record file_upload =
  originalname :: "jsstring option"
  buffer :: bytes
  mimetype :: "jsstring option"

subsection \<open>POST /upload\<close>

text \<open>
  Lines 78 to 95. \<open>req_file\<close> is what multer leaves in \<open>req.file\<close>; the body of the
  \<open>try\<close> block is \<open>upload_try\<close>, the \<open>catch\<close> is in \<open>upload\<close>.
\<close>

definition upload_try :: "env \<Rightarrow> R2 \<Rightarrow> file_upload option \<Rightarrow> response io" where
  "upload_try env r2 req_file =
     (case req_file of
        None \<Rightarrow> ret (json 400 [(lit ''ok'', JBool False), (lit ''error'', JStr (lit ''Missing file''))])
      | Some file \<Rightarrow>
          let original = replace_spaces (or_default (originalname file) (lit ''upload.bin'')) in
          and_then (uuidv4 env) (\<lambda>u.
          let key = lit ''uploads/'' @ u @ lit ''-'' @ original in
          and_then (putObject env r2 key (buffer file) (or_undefined (mimetype file))) (\<lambda>_.
          and_then (lift (publicUrl (URL_hostname env) r2 key)) (\<lambda>url.
          ret (json 200 [(lit ''ok'', JBool True), (lit ''key'', JStr key), (lit ''url'', JStr url)])))))"

definition upload :: "env \<Rightarrow> R2 \<Rightarrow> file_upload option \<Rightarrow> world \<Rightarrow> response \<times> world" where
  "upload env r2 req_file w =
     (case upload_try env r2 req_file w of
        (Inr res, w') \<Rightarrow> (res, w')
      | (Inl err, w') \<Rightarrow>
          (json 500 [(lit ''ok'', JBool False), (lit ''error'', JStr (lit ''Upload failed''))], w'))"

subsection \<open>POST /render\<close>

text \<open>
  Lines 105 to 149. \<open>req_body\<close> is what \<open>express.json\<close> leaves in \<open>req.body\<close>; the body
  of the \<open>try\<close> block is \<open>render_try\<close>, the \<open>catch\<close> is in \<open>render\<close>. The removal of
  the temporary file stands inside the \<open>try\<close> block, after the upload.
\<close>

definition filter_graph :: jsstring where
  "filter_graph =
     lit ''[0:a]volume=1.0[a0];[1:a]volume=0.8[a1];[a0][a1]amix=inputs=2:duration=shortest:dropout_transition=0[a]''"

definition output_options :: "jsstring list" where
  "output_options = [lit ''-map [a]'', lit ''-ac 2'', lit ''-ar 44100'', lit ''-b:a 192k'']"

text \<open>The promise around the ffmpeg command: resolved on \<open>end\<close>, rejected on \<open>error\<close>.\<close>

definition run_ffmpeg :: "env \<Rightarrow> jsstring \<Rightarrow> jsstring \<Rightarrow> jsstring \<Rightarrow> unit io" where
  "run_ffmpeg env voiceUrl musicUrl outFile w =
     (let cmd = Ffmpeg [voiceUrl, musicUrl] [filter_graph] output_options outFile in
      case ffmpeg_run env (length (calls w)) cmd of
        Ended out \<Rightarrow> (Inr (), (record_call cmd w)\<lparr>files := (files w)(outFile \<mapsto> out)\<rparr>)
      | Errored None \<Rightarrow> (Inl PipelineError, record_call cmd w)
      | Errored (Some part) \<Rightarrow>
          (Inl PipelineError, (record_call cmd w)\<lparr>files := (files w)(outFile \<mapsto> part)\<rparr>))"

definition render_try :: "env \<Rightarrow> R2 \<Rightarrow> jsval \<Rightarrow> response io" where
  "render_try env r2 req_body =
     (let b = (if truthy req_body then req_body else JObj []);
          voiceKey = get_prop b (lit ''voiceKey'');
          musicKey = get_prop b (lit ''musicKey'')
      in
      if falsy voiceKey \<or> falsy musicKey then
        ret (json 400 [(lit ''ok'', JBool False),
                       (lit ''error'', JStr (lit ''Missing voiceKey or musicKey''))])
      else
        and_then (signedUrl env r2 voiceKey (Some 600)) (\<lambda>voiceUrl.
        and_then (signedUrl env r2 musicKey (Some 600)) (\<lambda>musicUrl.
        and_then (uuidv4 env) (\<lambda>u1.
        let outFile = path_join env (tmpdir env) (lit ''mix-'' @ u1 @ lit ''.mp3'') in
        and_then (run_ffmpeg env voiceUrl musicUrl outFile) (\<lambda>_.
        and_then (uuidv4 env) (\<lambda>u2.
        let outKey = lit ''output/'' @ u2 @ lit ''.mp3'' in
        and_then (readFile env outFile) (\<lambda>fileBuffer.
        and_then (putObject env r2 outKey fileBuffer (Some (lit ''audio/mpeg''))) (\<lambda>_.
        and_then (swallow (unlinkSync env outFile)) (\<lambda>_.
        and_then (lift (publicUrl (URL_hostname env) r2 outKey)) (\<lambda>url.
        ret (json 200 [(lit ''ok'', JBool True), (lit ''outKey'', JStr outKey),
                       (lit ''url'', JStr url)])))))))))))"

definition render :: "env \<Rightarrow> R2 \<Rightarrow> jsval \<Rightarrow> world \<Rightarrow> response \<times> world" where
  "render env r2 req_body w =
     (case render_try env r2 req_body w of
        (Inr res, w') \<Rightarrow> (res, w')
      | (Inl err, w') \<Rightarrow>
          (json 500 [(lit ''ok'', JBool False), (lit ''error'', JStr (lit ''Render failed''))], w'))"

text \<open>The calls a handler made, given the world before and after.\<close>

definition new_calls :: "world \<Rightarrow> world \<Rightarrow> call list" where
  "new_calls w w' = drop (length (calls w)) (calls w')"

text \<open>
  The values \<open>render\<close> computes on its way, by the names the source gives them. The
  first UUID it draws names the temporary file, the second the output object.
\<close>

definition voiceKey_of :: "jsval \<Rightarrow> jsval" where
  "voiceKey_of req_body = get_prop req_body (lit ''voiceKey'')"

definition musicKey_of :: "jsval \<Rightarrow> jsval" where
  "musicKey_of req_body = get_prop req_body (lit ''musicKey'')"

definition sign_call :: "R2 \<Rightarrow> jsval \<Rightarrow> call" where
  "sign_call r2 key = GetSignedUrl (bucket r2) key 600"

definition outFile_of :: "env \<Rightarrow> world \<Rightarrow> jsstring" where
  "outFile_of env w =
     path_join env (tmpdir env) (lit ''mix-'' @ uuid_source env (uuids_drawn w) @ lit ''.mp3'')"

definition outKey_of :: "env \<Rightarrow> world \<Rightarrow> jsstring" where
  "outKey_of env w = lit ''output/'' @ uuid_source env (Suc (uuids_drawn w)) @ lit ''.mp3''"

definition ffmpeg_call :: "env \<Rightarrow> world \<Rightarrow> jsstring \<Rightarrow> jsstring \<Rightarrow> call" where
  "ffmpeg_call env w voiceUrl musicUrl =
     Ffmpeg [voiceUrl, musicUrl] [filter_graph] output_options (outFile_of env w)"

definition put_call :: "env \<Rightarrow> R2 \<Rightarrow> world \<Rightarrow> bytes \<Rightarrow> call" where
  "put_call env r2 w out =
     PutObjectCommand (bucket r2) (outKey_of env w) out (Some (lit ''audio/mpeg''))"

definition render_failed :: response where
  "render_failed = json 500 [(lit ''ok'', JBool False), (lit ''error'', JStr (lit ''Render failed''))]"

definition missing_keys :: response where
  "missing_keys =
     json 400 [(lit ''ok'', JBool False), (lit ''error'', JStr (lit ''Missing voiceKey or musicKey''))]"

fun is_sign :: "call \<Rightarrow> bool" where
  "is_sign (GetSignedUrl b k t) = True"
| "is_sign c = False"

fun is_put :: "call \<Rightarrow> bool" where
  "is_put (PutObjectCommand b k d t) = True"
| "is_put c = False"

fun is_ffmpeg :: "call \<Rightarrow> bool" where
  "is_ffmpeg (Ffmpeg i f opt out) = True"
| "is_ffmpeg c = False"

fun is_unlink :: "call \<Rightarrow> bool" where
  "is_unlink (UnlinkSync p) = True"
| "is_unlink c = False"

section \<open>The specification's vocabulary\<close>

text \<open>
  The filter graph and the output options as the specification describes them: a gain
  for each of the two inputs, a mix of the two with a duration policy and a dropout
  transition, and the channels, sample rate and bit rate of the encoding. The constants
  of the source are compared with these below.
\<close>

definition volume :: "jsstring \<Rightarrow> jsstring \<Rightarrow> jsstring \<Rightarrow> jsstring" where
  "volume inp gain out = lit ''['' @ inp @ lit '']volume='' @ gain @ lit ''['' @ out @ lit '']''"

definition amix :: "jsstring \<Rightarrow> jsstring \<Rightarrow> jsstring \<Rightarrow> jsstring \<Rightarrow> jsstring \<Rightarrow> jsstring" where
  "amix in1 in2 duration dropout out =
     lit ''['' @ in1 @ lit '']['' @ in2 @ lit '']amix=inputs=2:duration='' @ duration
       @ lit '':dropout_transition='' @ dropout @ lit ''['' @ out @ lit '']''"

definition mix_graph :: "jsstring \<Rightarrow> jsstring \<Rightarrow> jsstring \<Rightarrow> jsstring \<Rightarrow> jsstring" where
  "mix_graph voice_gain music_gain duration dropout =
     volume (lit ''0:a'') voice_gain (lit ''a0'') @ lit '';''
       @ volume (lit ''1:a'') music_gain (lit ''a1'') @ lit '';''
       @ amix (lit ''a0'') (lit ''a1'') duration dropout (lit ''a'')"

definition encoding :: "jsstring \<Rightarrow> jsstring \<Rightarrow> jsstring \<Rightarrow> jsstring list" where
  "encoding channels rate bitrate =
     [lit ''-map [a]'', lit ''-ac '' @ channels, lit ''-ar '' @ rate, lit ''-b:a '' @ bitrate]"

text \<open>A string is well formed when every surrogate stands in a pair, lead then trail.\<close>

fun well_formed :: "jsstring \<Rightarrow> bool" where
  "well_formed [] = True"
| "well_formed [c] = (\<not> is_lead c \<and> \<not> is_trail c)"
| "well_formed (c # d # cs) =
     (if is_lead c then is_trail d \<and> well_formed cs
      else \<not> is_trail c \<and> well_formed (d # cs))"

text \<open>
  The maximal runs of a string, each with its class (white space or not), and the
  string in which every run of white space is replaced by one hyphen.
\<close>

function runs :: "jsstring \<Rightarrow> (bool \<times> jsstring) list" where
  "runs [] = []"
| "runs (c # cs) =
     (is_space c, c # takeWhile (\<lambda>d. is_space d = is_space c) cs)
       # runs (dropWhile (\<lambda>d. is_space d = is_space c) cs)"
  by pat_completeness auto
termination
  by (relation "measure length") (auto simp: less_Suc_eq_le length_dropWhile_le)

definition hyphenate_runs :: "jsstring \<Rightarrow> jsstring" where
  "hyphenate_runs s = concat (map (\<lambda>(space, r). if space then lit ''-'' else r) (runs s))"

section \<open>Concrete runs\<close>

text \<open>
  A store configured the way the constructor's comment shows, a request with both keys,
  an empty world, and collaborators that all succeed. \<open>hostname_table\<close> lists what the
  platform's URL parser answers on the endpoints used here.
\<close>

definition hostname_table :: "jsstring \<Rightarrow> jsstring option" where
  "hostname_table s =
     (if s = lit ''https://acc.r2.cloudflarestorage.com'' then Some (lit ''acc.r2.cloudflarestorage.com'')
      else if s = lit ''https://cdn.example.com'' then Some (lit ''cdn.example.com'')
      else None)"

definition accepts_all :: "s3_config \<Rightarrow> bool" where
  "accepts_all c = True"

definition cfg_ok :: cfg where
  "cfg_ok = \<lparr>cfg_accountId = Some (lit ''acc''), cfg_accessKeyId = Some (lit ''id''),
              cfg_secretAccessKey = Some (lit ''secret''), cfg_bucket = Some (lit ''melody4u''),
              cfg_endpoint = Some (lit ''https://acc.r2.cloudflarestorage.com'')\<rparr>"

definition r2_ok :: R2 where
  "r2_ok = \<lparr>bucket = Some (lit ''melody4u''), accountId = Some (lit ''acc''),
             endpoint = Some (lit ''https://acc.r2.cloudflarestorage.com''),
             client = \<lparr>region = lit ''auto'',
                        s3_endpoint = Some (lit ''https://acc.r2.cloudflarestorage.com''),
                        forcePathStyle = True, accessKeyId = Some (lit ''id''),
                        secretAccessKey = Some (lit ''secret'')\<rparr>\<rparr>"

definition req_ok :: jsval where
  "req_ok = JObj [(lit ''voiceKey'', JStr (lit ''uploads/abc-voice.wav'')),
                  (lit ''musicKey'', JStr (lit ''uploads/def-music.wav''))]"

definition w0 :: world where
  "w0 = \<lparr>files = (\<lambda>p. None), objects = (\<lambda>k. None), calls = [], uuids_drawn = 0\<rparr>"

definition mp3_bytes :: bytes where
  "mp3_bytes = [0x49, 0x44, 0x33]"

definition env_ok :: env where
  "env_ok =
     \<lparr>uuid_source = (\<lambda>n. if n = 0 then lit ''1b4e28ba-2fa1-41d2-883f-0016d3cca427''
                          else lit ''6fa459ea-ee8a-4ca4-894e-db77e160355e''),
      tmpdir = lit ''/tmp'',
      path_join = (\<lambda>a b. a @ lit ''/'' @ b),
      URL_hostname = hostname_table,
      presign = (\<lambda>n c. case c of
                   GetSignedUrl b (JStr k) t \<Rightarrow> Some (lit ''https://signed.example/'' @ k)
                 | _ \<Rightarrow> None),
      send_ok = (\<lambda>n c. True),
      ffmpeg_run = (\<lambda>n c. Ended mp3_bytes),
      read_ok = (\<lambda>n. True),
      unlink_ok = (\<lambda>n. True)\<rparr>"

text \<open>The same, with one collaborator failing.\<close>

definition env_upload_fails :: env where
  "env_upload_fails = env_ok\<lparr>send_ok := (\<lambda>n c. False)\<rparr>"

definition env_ffmpeg_fails :: env where
  "env_ffmpeg_fails = env_ok\<lparr>ffmpeg_run := (\<lambda>n c. Errored (Some [0x49]))\<rparr>"

definition env_sign_fails :: env where
  "env_sign_fails = env_ok\<lparr>presign := (\<lambda>n c. None)\<rparr>"

text \<open>An uploaded file whose name holds runs of white space.\<close>

definition song :: file_upload where
  "song = \<lparr>originalname = Some (lit ''my  song 1.mp3''), buffer = mp3_bytes,
            mimetype = Some (lit ''audio/mpeg'')\<rparr>"

text \<open>
  A store built while the environment variables are missing (the server only warns and
  goes on), and one behind a custom domain.
\<close>

definition cfg_missing :: cfg where
  "cfg_missing = \<lparr>cfg_accountId = None, cfg_accessKeyId = None, cfg_secretAccessKey = None,
                   cfg_bucket = None, cfg_endpoint = None\<rparr>"

definition r2_missing :: R2 where
  "r2_missing = \<lparr>bucket = None, accountId = None, endpoint = None,
                  client = \<lparr>region = lit ''auto'', s3_endpoint = None, forcePathStyle = True,
                             accessKeyId = None, secretAccessKey = None\<rparr>\<rparr>"

definition r2_custom :: R2 where
  "r2_custom = r2_ok\<lparr>endpoint := Some (lit ''https://cdn.example.com'')\<rparr>"

section \<open>Every path through render\<close>

text \<open>
  One lemma for each way the handler can end, and the rule that there is no other.
\<close>

lemmas io_defs = and_then_def ret_def lift_def swallow_def record_call_def uuidv4_def
  readFile_def unlinkSync_def putObject_def signedUrl_def run_ffmpeg_def
lemmas name_defs = voiceKey_of_def musicKey_of_def sign_call_def outFile_of_def outKey_of_def
  ffmpeg_call_def put_call_def render_failed_def missing_keys_def
lemmas run_defs = env_ok_def env_upload_fails_def env_ffmpeg_fails_def env_sign_fails_def
  r2_ok_def req_ok_def w0_def mp3_bytes_def hostname_table_def cfg_ok_def accepts_all_def

lemma get_prop_or_empty:
  "get_prop (if truthy b then b else JObj []) k = get_prop b k"
  by (cases b) auto

lemma audio_mpeg_nonempty: "or_undefined (Some (lit ''audio/mpeg'')) = Some (lit ''audio/mpeg'')"
  by (simp add: or_undefined_def lit_def)

lemma plus_Suc:
  "n + 3 = Suc (Suc (Suc n))" "n + 4 = Suc (Suc (Suc (Suc n)))"
  "n + 5 = Suc (Suc (Suc (Suc (Suc n))))"
  by simp_all

lemma render_invalid:
  assumes "falsy (voiceKey_of b) \<or> falsy (musicKey_of b)"
  shows "render env store b w = (missing_keys, w)"
  using assms unfolding render_def render_try_def Let_def get_prop_or_empty name_defs
  by (auto simp: ret_def)

lemma render_sign1_fails:
  assumes "truthy (voiceKey_of b)" "truthy (musicKey_of b)"
    and "presign env (length (calls w)) (sign_call store (voiceKey_of b)) = None"
  shows "render env store b w = (render_failed, w\<lparr>calls := calls w @ [sign_call store (voiceKey_of b)]\<rparr>)"
  using assms unfolding render_def render_try_def Let_def get_prop_or_empty name_defs
  by (simp add: io_defs falsy_def)

lemma render_sign2_fails:
  assumes "truthy (voiceKey_of b)" "truthy (musicKey_of b)"
    and "presign env (length (calls w)) (sign_call store (voiceKey_of b)) = Some voiceUrl"
    and "presign env (Suc (length (calls w))) (sign_call store (musicKey_of b)) = None"
  shows "render env store b w =
     (render_failed, w\<lparr>calls := calls w @ [sign_call store (voiceKey_of b), sign_call store (musicKey_of b)]\<rparr>)"
  using assms unfolding render_def render_try_def Let_def get_prop_or_empty name_defs
  by (simp add: io_defs falsy_def)

lemma render_ffmpeg_fails:
  assumes "truthy (voiceKey_of b)" "truthy (musicKey_of b)"
    and "presign env (length (calls w)) (sign_call store (voiceKey_of b)) = Some voiceUrl"
    and "presign env (Suc (length (calls w))) (sign_call store (musicKey_of b)) = Some musicUrl"
    and "ffmpeg_run env (length (calls w) + 2) (ffmpeg_call env w voiceUrl musicUrl) = Errored part"
  shows "render env store b w =
     (render_failed,
      w\<lparr>calls := calls w @ [sign_call store (voiceKey_of b), sign_call store (musicKey_of b),
                              ffmpeg_call env w voiceUrl musicUrl],
        uuids_drawn := Suc (uuids_drawn w),
        files := (case part of None \<Rightarrow> files w | Some p \<Rightarrow> (files w)(outFile_of env w \<mapsto> p))\<rparr>)"
  using assms unfolding render_def render_try_def Let_def get_prop_or_empty name_defs
  by (simp add: io_defs falsy_def plus_Suc split: option.splits)

lemma render_read_fails:
  assumes "truthy (voiceKey_of b)" "truthy (musicKey_of b)"
    and "presign env (length (calls w)) (sign_call store (voiceKey_of b)) = Some voiceUrl"
    and "presign env (Suc (length (calls w))) (sign_call store (musicKey_of b)) = Some musicUrl"
    and "ffmpeg_run env (length (calls w) + 2) (ffmpeg_call env w voiceUrl musicUrl) = Ended out"
    and "\<not> read_ok env (length (calls w) + 3)"
  shows "render env store b w =
     (render_failed,
      w\<lparr>calls := calls w @ [sign_call store (voiceKey_of b), sign_call store (musicKey_of b),
                              ffmpeg_call env w voiceUrl musicUrl, ReadFile (outFile_of env w)],
        uuids_drawn := Suc (Suc (uuids_drawn w)),
        files := (files w)(outFile_of env w \<mapsto> out)\<rparr>)"
  using assms unfolding render_def render_try_def Let_def get_prop_or_empty name_defs
  by (simp add: io_defs falsy_def plus_Suc)

lemma render_put_fails:
  assumes "truthy (voiceKey_of b)" "truthy (musicKey_of b)"
    and "presign env (length (calls w)) (sign_call store (voiceKey_of b)) = Some voiceUrl"
    and "presign env (Suc (length (calls w))) (sign_call store (musicKey_of b)) = Some musicUrl"
    and "ffmpeg_run env (length (calls w) + 2) (ffmpeg_call env w voiceUrl musicUrl) = Ended out"
    and "read_ok env (length (calls w) + 3)"
    and "\<not> send_ok env (length (calls w) + 4) (put_call env store w out)"
  shows "render env store b w =
     (render_failed,
      w\<lparr>calls := calls w @ [sign_call store (voiceKey_of b), sign_call store (musicKey_of b),
                              ffmpeg_call env w voiceUrl musicUrl, ReadFile (outFile_of env w),
                              put_call env store w out],
        uuids_drawn := Suc (Suc (uuids_drawn w)),
        files := (files w)(outFile_of env w \<mapsto> out)\<rparr>)"
  using assms unfolding render_def render_try_def Let_def get_prop_or_empty name_defs
  by (simp add: io_defs falsy_def plus_Suc audio_mpeg_nonempty)

lemma render_uploaded:
  assumes "truthy (voiceKey_of b)" "truthy (musicKey_of b)"
    and "presign env (length (calls w)) (sign_call store (voiceKey_of b)) = Some voiceUrl"
    and "presign env (Suc (length (calls w))) (sign_call store (musicKey_of b)) = Some musicUrl"
    and "ffmpeg_run env (length (calls w) + 2) (ffmpeg_call env w voiceUrl musicUrl) = Ended out"
    and "read_ok env (length (calls w) + 3)"
    and "send_ok env (length (calls w) + 4) (put_call env store w out)"
  shows "render env store b w =
     ((case publicUrl (URL_hostname env) store (outKey_of env w) of
         Inl e \<Rightarrow> render_failed
       | Inr url \<Rightarrow>
           json 200 [(lit ''ok'', JBool True), (lit ''outKey'', JStr (outKey_of env w)),
                     (lit ''url'', JStr url)]),
      w\<lparr>calls := calls w @ [sign_call store (voiceKey_of b), sign_call store (musicKey_of b),
                              ffmpeg_call env w voiceUrl musicUrl, ReadFile (outFile_of env w),
                              put_call env store w out, UnlinkSync (outFile_of env w)],
        uuids_drawn := Suc (Suc (uuids_drawn w)),
        files := (if unlink_ok env (length (calls w) + 5) then (files w)(outFile_of env w := None)
                  else (files w)(outFile_of env w \<mapsto> out)),
        objects := (objects w)(outKey_of env w \<mapsto> (out, Some (lit ''audio/mpeg'')))\<rparr>)"
  using assms unfolding render_def render_try_def Let_def get_prop_or_empty name_defs
  by (simp add: io_defs falsy_def plus_Suc audio_mpeg_nonempty split: sum.splits)

lemma render_cases [case_names invalid sign1 sign2 ffmpeg read put uploaded]:
  obtains
    (invalid) "falsy (voiceKey_of b) \<or> falsy (musicKey_of b)"
  | (sign1) "truthy (voiceKey_of b)" "truthy (musicKey_of b)"
      "presign env (length (calls w)) (sign_call store (voiceKey_of b)) = None"
  | (sign2) voiceUrl where "truthy (voiceKey_of b)" "truthy (musicKey_of b)"
      "presign env (length (calls w)) (sign_call store (voiceKey_of b)) = Some voiceUrl"
      "presign env (Suc (length (calls w))) (sign_call store (musicKey_of b)) = None"
  | (ffmpeg) voiceUrl musicUrl part where "truthy (voiceKey_of b)" "truthy (musicKey_of b)"
      "presign env (length (calls w)) (sign_call store (voiceKey_of b)) = Some voiceUrl"
      "presign env (Suc (length (calls w))) (sign_call store (musicKey_of b)) = Some musicUrl"
      "ffmpeg_run env (length (calls w) + 2) (ffmpeg_call env w voiceUrl musicUrl) = Errored part"
  | (read) voiceUrl musicUrl out where "truthy (voiceKey_of b)" "truthy (musicKey_of b)"
      "presign env (length (calls w)) (sign_call store (voiceKey_of b)) = Some voiceUrl"
      "presign env (Suc (length (calls w))) (sign_call store (musicKey_of b)) = Some musicUrl"
      "ffmpeg_run env (length (calls w) + 2) (ffmpeg_call env w voiceUrl musicUrl) = Ended out"
      "\<not> read_ok env (length (calls w) + 3)"
  | (put) voiceUrl musicUrl out where "truthy (voiceKey_of b)" "truthy (musicKey_of b)"
      "presign env (length (calls w)) (sign_call store (voiceKey_of b)) = Some voiceUrl"
      "presign env (Suc (length (calls w))) (sign_call store (musicKey_of b)) = Some musicUrl"
      "ffmpeg_run env (length (calls w) + 2) (ffmpeg_call env w voiceUrl musicUrl) = Ended out"
      "read_ok env (length (calls w) + 3)"
      "\<not> send_ok env (length (calls w) + 4) (put_call env store w out)"
  | (uploaded) voiceUrl musicUrl out where "truthy (voiceKey_of b)" "truthy (musicKey_of b)"
      "presign env (length (calls w)) (sign_call store (voiceKey_of b)) = Some voiceUrl"
      "presign env (Suc (length (calls w))) (sign_call store (musicKey_of b)) = Some musicUrl"
      "ffmpeg_run env (length (calls w) + 2) (ffmpeg_call env w voiceUrl musicUrl) = Ended out"
      "read_ok env (length (calls w) + 3)"
      "send_ok env (length (calls w) + 4) (put_call env store w out)"
proof (cases "falsy (voiceKey_of b) \<or> falsy (musicKey_of b)")
  case True
  then show ?thesis by (rule invalid)
next
  case False
  then have t: "truthy (voiceKey_of b)" "truthy (musicKey_of b)"
    by (simp_all add: falsy_def)
  show ?thesis
  proof (cases "presign env (length (calls w)) (sign_call store (voiceKey_of b))")
    case None
    with t show ?thesis by (rule sign1)
  next
    case s1: (Some voiceUrl)
    show ?thesis
    proof (cases "presign env (Suc (length (calls w))) (sign_call store (musicKey_of b))")
      case None
      with t s1 show ?thesis by (rule sign2)
    next
      case s2: (Some musicUrl)
      show ?thesis
      proof (cases "ffmpeg_run env (length (calls w) + 2) (ffmpeg_call env w voiceUrl musicUrl)")
        case (Errored part)
        with t s1 s2 show ?thesis by (rule ffmpeg)
      next
        case e: (Ended out)
        show ?thesis
        proof (cases "read_ok env (length (calls w) + 3)")
          case False
          with t s1 s2 e show ?thesis by (rule read)
        next
          case r: True
          show ?thesis
          proof (cases "send_ok env (length (calls w) + 4) (put_call env store w out)")
            case False
            with t s1 s2 e r show ?thesis by (rule put)
          next
            case True
            with t s1 s2 e r show ?thesis by (rule uploaded)
          qed
        qed
      qed
    qed
  qed
qed

lemma filter_graph_meaning:
  "filter_graph = mix_graph (lit ''1.0'') (lit ''0.8'') (lit ''shortest'') (lit ''0'')"
  by (simp add: filter_graph_def mix_graph_def volume_def amix_def lit_def)

lemma output_options_meaning:
  "output_options = encoding (lit ''2'') (lit ''44100'') (lit ''192k'')"
  by (simp add: output_options_def encoding_def lit_def)

lemma new_calls_same: "new_calls w w = []"
  by (simp add: new_calls_def)

text \<open>The run in which every collaborator succeeds, evaluated.\<close>

lemma publicUrl_ok_run:
  "publicUrl (URL_hostname env_ok) r2_ok (lit ''output/6fa459ea-ee8a-4ca4-894e-db77e160355e.mp3'')
     = Inr (lit ''https://melody4u.acc.r2.cloudflarestorage.com/output/6fa459ea-ee8a-4ca4-894e-db77e160355e.mp3'')"
  by (simp add: publicUrl_def run_defs template_def endsWith_def prepend_def uri_unescaped_def lit_def)

lemma render_ok_run:
  "render env_ok r2_ok req_ok w0 =
     (json 200 [(lit ''ok'', JBool True),
                (lit ''outKey'', JStr (lit ''output/6fa459ea-ee8a-4ca4-894e-db77e160355e.mp3'')),
                (lit ''url'', JStr (lit ''https://melody4u.acc.r2.cloudflarestorage.com/output/6fa459ea-ee8a-4ca4-894e-db77e160355e.mp3''))],
      w0\<lparr>calls :=
            [GetSignedUrl (Some (lit ''melody4u'')) (JStr (lit ''uploads/abc-voice.wav'')) 600,
             GetSignedUrl (Some (lit ''melody4u'')) (JStr (lit ''uploads/def-music.wav'')) 600,
             Ffmpeg [lit ''https://signed.example/uploads/abc-voice.wav'',
                     lit ''https://signed.example/uploads/def-music.wav'']
               [filter_graph] output_options (lit ''/tmp/mix-1b4e28ba-2fa1-41d2-883f-0016d3cca427.mp3''),
             ReadFile (lit ''/tmp/mix-1b4e28ba-2fa1-41d2-883f-0016d3cca427.mp3''),
             PutObjectCommand (Some (lit ''melody4u''))
               (lit ''output/6fa459ea-ee8a-4ca4-894e-db77e160355e.mp3'') mp3_bytes (Some (lit ''audio/mpeg'')),
             UnlinkSync (lit ''/tmp/mix-1b4e28ba-2fa1-41d2-883f-0016d3cca427.mp3'')],
          uuids_drawn := 2,
          files := (\<lambda>p. None),
          objects := (\<lambda>k. None)(lit ''output/6fa459ea-ee8a-4ca4-894e-db77e160355e.mp3''
                        \<mapsto> (mp3_bytes, Some (lit ''audio/mpeg'')))\<rparr>)"
proof -
  have k: "outKey_of env_ok w0 = lit ''output/6fa459ea-ee8a-4ca4-894e-db77e160355e.mp3''"
    by (simp add: outKey_of_def run_defs lit_def)
  have f: "outFile_of env_ok w0 = lit ''/tmp/mix-1b4e28ba-2fa1-41d2-883f-0016d3cca427.mp3''"
    by (simp add: outFile_of_def run_defs lit_def)
  have "render env_ok r2_ok req_ok w0 =
     ((case publicUrl (URL_hostname env_ok) r2_ok (outKey_of env_ok w0) of
         Inl e \<Rightarrow> render_failed
       | Inr url \<Rightarrow>
           json 200 [(lit ''ok'', JBool True), (lit ''outKey'', JStr (outKey_of env_ok w0)),
                     (lit ''url'', JStr url)]),
      w0\<lparr>calls := calls w0 @ [sign_call r2_ok (voiceKey_of req_ok), sign_call r2_ok (musicKey_of req_ok),
                              ffmpeg_call env_ok w0 (lit ''https://signed.example/uploads/abc-voice.wav'')
                                (lit ''https://signed.example/uploads/def-music.wav''),
                              ReadFile (outFile_of env_ok w0),
                              put_call env_ok r2_ok w0 mp3_bytes, UnlinkSync (outFile_of env_ok w0)],
        uuids_drawn := Suc (Suc (uuids_drawn w0)),
        files := (if unlink_ok env_ok (length (calls w0) + 5) then (files w0)(outFile_of env_ok w0 := None)
                  else (files w0)(outFile_of env_ok w0 \<mapsto> mp3_bytes)),
        objects := (objects w0)(outKey_of env_ok w0 \<mapsto> (mp3_bytes, Some (lit ''audio/mpeg'')))\<rparr>)"
    by (rule render_uploaded) (simp_all add: run_defs name_defs lit_def)
  then show ?thesis
    unfolding k f publicUrl_ok_run
    by (simp add: sign_call_def ffmpeg_call_def put_call_def k f)
      (simp add: run_defs name_defs lit_def)
qed

lemma upload_ok_run:
  "fst (upload env_ok r2_ok (Some song) w0) =
     json 200 [(lit ''ok'', JBool True),
               (lit ''key'', JStr (lit ''uploads/1b4e28ba-2fa1-41d2-883f-0016d3cca427-my-song-1.mp3'')),
               (lit ''url'', JStr (lit ''https://melody4u.acc.r2.cloudflarestorage.com/uploads/1b4e28ba-2fa1-41d2-883f-0016d3cca427-my-song-1.mp3''))]"
  by (simp add: upload_def upload_try_def io_defs Let_def song_def run_defs or_default_def
      or_undefined_def is_space_def publicUrl_def template_def endsWith_def prepend_def
      uri_unescaped_def lit_def)

section \<open>Strings: encoding and white space\<close>

lemma unescaped_not_surrogate: "uri_unescaped c \<Longrightarrow> \<not> is_lead c \<and> \<not> is_trail c"
  by (auto simp: uri_unescaped_def is_lead_def is_trail_def lit_def word_le_nat_alt)

lemma lead_not_trail: "is_lead c \<Longrightarrow> \<not> is_trail c"
  by (auto simp: is_lead_def is_trail_def word_le_nat_alt)

lemma prepend_Inr: "(\<exists>k. prepend p r = Inr k) = (\<exists>k. r = Inr k)"
  by (cases r) (simp_all add: prepend_def)

lemma encodeURI_succeeds_iff: "(\<exists>k. encodeURI s = Inr k) = well_formed s"
proof (induction s rule: well_formed.induct)
  case 1
  then show ?case by simp
next
  case (2 c)
  then show ?case
    by (auto simp: prepend_def dest: unescaped_not_surrogate)
next
  case (3 c d cs)
  show ?case
  proof (cases "uri_unescaped c")
    case True
    with 3 unescaped_not_surrogate [of c] show ?thesis
      by (simp add: prepend_Inr del: encodeURI.simps(2)) (simp add: prepend_Inr)
  next
    case False
    with 3 show ?thesis
      by (auto simp: prepend_Inr dest: lead_not_trail)
  qed
qed

lemma encodeURI_error: "encodeURI s = Inl e \<Longrightarrow> e = URIError"
  by (induction s arbitrary: e rule: encodeURI.induct)
    (auto simp: prepend_def split: if_splits sum.splits list.splits)

lemma prepend_Inl: "(prepend p r = Inl e) = (r = Inl e)"
  by (cases r) (simp_all add: prepend_def)

lemma encodeURI_fails_iff: "(encodeURI s = Inl e) = (e = URIError \<and> \<not> well_formed s)"
proof (cases "encodeURI s")
  case (Inl e')
  with encodeURI_error [OF Inl] encodeURI_succeeds_iff [of s] show ?thesis
    by auto
next
  case (Inr k)
  with encodeURI_succeeds_iff [of s] show ?thesis
    by auto
qed

lemma encodeURI_unescaped: "list_all uri_unescaped key \<Longrightarrow> encodeURI key = Inr key"
  by (induction key) (simp_all add: prepend_def)

lemma escape_length: "3 \<le> length (escape cp)"
  by (simp add: escape_def utf8_def percent_def)

lemma encodeURI_length:
  "encodeURI s = Inr k \<Longrightarrow>
     length s \<le> length k \<and> (\<not> list_all uri_unescaped s \<longrightarrow> length s < length k)"
proof (induction s arbitrary: k rule: encodeURI.induct)
  case 1
  then show ?case by simp
next
  case (2 c cs)
  show ?case
  proof (cases "uri_unescaped c")
    case True
    with 2(4) obtain k' where k': "encodeURI cs = Inr k'" "k = c # k'"
      by (auto simp: prepend_def split: sum.splits)
    from 2(1) [OF True k'(1)] True k'(2) show ?thesis by simp
  next
    case False
    note esc = False
    show ?thesis
    proof (cases "is_lead c")
      case True
      with esc 2(4) obtain d ds k' where p: "cs = d # ds" "is_trail d" "\<not> is_trail c"
          "encodeURI ds = Inr k'"
          "k = escape ((unat c - 0xD800) * 0x400 + (unat d - 0xDC00) + 0x10000) @ k'"
        by (auto simp: prepend_def split: sum.splits list.splits if_splits)
      from 2(2) [OF esc p(3) True p(1) p(2) p(4)] have "length ds \<le> length k'"
        by simp
      with p(1) p(5) esc
        escape_length [of "(unat c - 0xD800) * 0x400 + (unat d - 0xDC00) + 0x10000"]
      show ?thesis by simp
    next
      case False
      with esc 2(4) obtain k' where p: "\<not> is_trail c" "encodeURI cs = Inr k'"
          "k = escape (unat c) @ k'"
        by (auto simp: prepend_def split: sum.splits if_splits)
      from 2(3) [OF esc p(1) False p(2)] have "length cs \<le> length k'"
        by simp
      with p(3) esc escape_length [of "unat c"] show ?thesis by simp
    qed
  qed
qed

lemma encodeURI_identity_iff:
  assumes "encodeURI key = Inr k"
  shows "(k = key) = list_all uri_unescaped key"
proof
  assume "k = key"
  with encodeURI_length [OF assms] show "list_all uri_unescaped key"
    by auto
next
  assume "list_all uri_unescaped key"
  with assms show "k = key"
    by (simp add: encodeURI_unescaped)
qed

lemma endsWith_iff: "endsWith s suf = (\<exists>p. s = p @ suf)"
proof
  assume "endsWith s suf"
  then have "s = take (length s - length suf) s @ suf"
    by (metis append_take_drop_id endsWith_def)
  then show "\<exists>p. s = p @ suf" ..
next
  assume "\<exists>p. s = p @ suf"
  then show "endsWith s suf"
    by (auto simp: endsWith_def)
qed

lemma concat_runs: "concat (map snd (runs s)) = s"
  by (induction s rule: runs.induct) simp_all

lemma runs_homogeneous:
  "(space, r) \<in> set (runs s) \<Longrightarrow> r \<noteq> [] \<and> list_all (\<lambda>d. is_space d = space) r"
proof (induction s rule: runs.induct)
  case 1
  then show ?case by simp
next
  case (2 c cs)
  let ?same = "\<lambda>d. is_space d = is_space c"
  from 2(2) consider
      (head) "space = is_space c" "r = c # takeWhile ?same cs"
    | (rest) "(space, r) \<in> set (runs (dropWhile ?same cs))"
    by auto
  then show ?case
  proof cases
    case head
    have "list_all ?same (takeWhile ?same cs)"
      unfolding list_all_iff by (blast dest: set_takeWhileD)
    with head show ?thesis by simp
  next
    case rest
    then show ?thesis by (rule 2(1))
  qed
qed

lemma runs_alternate:
  "runs s = pre @ (sp1, r1) # (sp2, r2) # post \<Longrightarrow> sp1 \<noteq> sp2"
proof (induction s arbitrary: pre rule: runs.induct)
  case 1
  then show ?case by simp
next
  case (2 c cs)
  let ?rest = "dropWhile (\<lambda>d. is_space d = is_space c) cs"
  show ?case
  proof (cases pre)
    case Nil
    with 2(2) have sp1: "sp1 = is_space c" and rest: "runs ?rest = (sp2, r2) # post"
      by auto
    from rest obtain d ds where d: "?rest = d # ds"
      by (cases ?rest) auto
    with rest have "sp2 = is_space d" by simp
    moreover from d have "is_space d \<noteq> is_space c"
      by (simp add: dropWhile_eq_Cons_conv)
    ultimately show ?thesis using sp1 by simp
  next
    case (Cons p ps)
    with 2(2) have "runs ?rest = ps @ (sp1, r1) # (sp2, r2) # post"
      by simp
    then show ?thesis by (rule 2(1))
  qed
qed

lemma hyphenate_skip:
  "hyphenate_runs s =
     takeWhile (\<lambda>d. \<not> is_space d) s @ hyphenate_runs (dropWhile (\<lambda>d. \<not> is_space d) s)"
proof (cases s)
  case Nil
  then show ?thesis by (simp add: hyphenate_runs_def)
next
  case (Cons c cs)
  then show ?thesis
    by (cases "is_space c") (simp_all add: hyphenate_runs_def)
qed

lemma replace_spaces_hyphenate: "replace_spaces s = hyphenate_runs s"
proof (induction s rule: replace_spaces.induct)
  case 1
  then show ?case by (simp add: hyphenate_runs_def)
next
  case (2 c cs)
  show ?case
  proof (cases "is_space c")
    case True
    with 2 show ?thesis
      by (simp add: hyphenate_runs_def lit_def)
  next
    case False
    with 2 have "replace_spaces (c # cs) = c # hyphenate_runs cs"
      by simp
    also have "\<dots> = c # takeWhile (\<lambda>d. \<not> is_space d) cs
        @ hyphenate_runs (dropWhile (\<lambda>d. \<not> is_space d) cs)"
      using hyphenate_skip [of cs] by simp
    also from False have "\<dots> = hyphenate_runs (c # cs)"
      by (simp add: hyphenate_runs_def)
    finally show ?thesis .
  qed
qed

lemma or_undefined_idem: "or_undefined (or_undefined a) = or_undefined a"
  by (simp add: or_undefined_def split: option.splits)

lemma upload_bin_unchanged: "replace_spaces (lit ''upload.bin'') = lit ''upload.bin''"
  by (simp add: lit_def is_space_def)

section \<open>The claims of the specification\<close>

text \<open>
  C4. A render request whose \<open>voiceKey\<close> or \<open>musicKey\<close> is absent or the empty
  string (the body \<open>{}\<close> included, and a missing body, which the handler replaces by
  \<open>{}\<close>) is answered 400 with \<open>{ok: false, error: "Missing voiceKey or musicKey"}\<close>,
  and the world is left as it was: no signed URL is requested, nothing is written to
  the store, the pipeline is not invoked.
\<close>

theorem render_missing_key:
  assumes "voiceKey_of b \<in> {JUndefined, JStr []} \<or> musicKey_of b \<in> {JUndefined, JStr []}"
  shows "render env store b w =
           (json 400 [(lit ''ok'', JBool False),
                      (lit ''error'', JStr (lit ''Missing voiceKey or musicKey''))], w)
         \<and> new_calls w (snd (render env store b w)) = []"
proof -
  from assms have "falsy (voiceKey_of b) \<or> falsy (musicKey_of b)"
    by (auto simp: falsy_def)
  then have "render env store b w = (missing_keys, w)"
    by (rule render_invalid)
  then show ?thesis
    by (simp add: missing_keys_def new_calls_same)
qed

theorem render_missing_key_witness:
  "voiceKey_of (JObj []) = JUndefined
   \<and> render env_ok r2_ok (JObj []) w0 =
       (json 400 [(lit ''ok'', JBool False),
                  (lit ''error'', JStr (lit ''Missing voiceKey or musicKey''))], w0)
   \<and> new_calls w0 (snd (render env_ok r2_ok (JObj []) w0)) = []"
proof -
  have h: "voiceKey_of (JObj []) = JUndefined"
    by (simp add: voiceKey_of_def)
  then have "voiceKey_of (JObj []) \<in> {JUndefined, JStr []}
      \<or> musicKey_of (JObj []) \<in> {JUndefined, JStr []}"
    by simp
  from render_missing_key [OF this, of env_ok r2_ok w0] h show ?thesis
    by blast
qed

text \<open>
  C9. \<open>signedUrl(key)\<close> with the expiry left out asks for a grant of 300 seconds, which
  lies in the range of five to ten minutes the specification gives for a grant.
\<close>

theorem signedUrl_default_ttl:
  "new_calls w (snd (signedUrl env this key None w)) = [GetSignedUrl (bucket this) key 300]
   \<and> 5 * 60 \<le> (300::nat) \<and> (300::nat) \<le> 10 * 60"
  by (simp add: signedUrl_def new_calls_def record_call_def Let_def split: option.splits)

text \<open>
  C5. Whatever the request, every invocation of the pipeline that \<open>render\<close> makes has
  two inputs, the fixed filter graph (first input at gain 1.0, second at gain 0.8, mixed
  with duration \<open>shortest\<close> and dropout transition 0), the output options for 2 channels,
  44100 Hz and 192k, and a target file with the extension \<open>.mp3\<close>. When both signed
  URLs were issued the pipeline is invoked exactly once, the URL for \<open>voiceKey\<close> first
  and the one for \<open>musicKey\<close> second.
\<close>

theorem render_pipeline_parameters:
  fixes env store b w
  defines "trace \<equiv> new_calls w (snd (render env store b w))"
  defines "graph \<equiv> mix_graph (lit ''1.0'') (lit ''0.8'') (lit ''shortest'') (lit ''0'')"
  defines "opts \<equiv> encoding (lit ''2'') (lit ''44100'') (lit ''192k'')"
  defines "target \<equiv> path_join env (tmpdir env)
                       (lit ''mix-'' @ uuid_source env (uuids_drawn w) @ lit ''.mp3'')"
  shows "(\<forall>c \<in> set trace. is_ffmpeg c \<longrightarrow>
            (\<exists>voiceUrl musicUrl. c = Ffmpeg [voiceUrl, musicUrl] [graph] opts target))
         \<and> (truthy (voiceKey_of b) \<and> truthy (musicKey_of b)
              \<and> presign env (length (calls w)) (GetSignedUrl (bucket store) (voiceKey_of b) 600) = Some voiceUrl
              \<and> presign env (Suc (length (calls w))) (GetSignedUrl (bucket store) (musicKey_of b) 600) = Some musicUrl
              \<longrightarrow> filter is_ffmpeg trace = [Ffmpeg [voiceUrl, musicUrl] [graph] opts target])"
proof -
  have fc: "ffmpeg_call env w x y = Ffmpeg [x, y] [graph] opts target" for x y
    by (simp add: ffmpeg_call_def graph_def opts_def target_def outFile_of_def
        filter_graph_meaning output_options_meaning)
  show ?thesis
  proof (cases rule: render_cases [where b = b and env = env and w = w and store = store])
    case invalid
    then have "trace = []"
      by (simp add: trace_def render_invalid new_calls_same)
    moreover from invalid have "\<not> (truthy (voiceKey_of b) \<and> truthy (musicKey_of b))"
      by (auto simp: falsy_def)
    ultimately show ?thesis by auto
  next
    case sign1
    then show ?thesis
      by (simp add: trace_def render_sign1_fails new_calls_def sign_call_def)
  next
    case (sign2 voiceUrl)
    then show ?thesis
      by (simp add: trace_def render_sign2_fails new_calls_def sign_call_def)
  next
    case (ffmpeg voiceUrl musicUrl part)
    then show ?thesis
      by (auto simp: trace_def render_ffmpeg_fails new_calls_def sign_call_def fc)
  next
    case (read voiceUrl musicUrl out)
    then show ?thesis
      by (auto simp: trace_def render_read_fails new_calls_def sign_call_def fc)
  next
    case (put voiceUrl musicUrl out)
    then show ?thesis
      by (auto simp: trace_def render_put_fails new_calls_def sign_call_def fc put_call_def)
  next
    case (uploaded voiceUrl musicUrl out)
    then show ?thesis
      by (auto simp: trace_def render_uploaded new_calls_def sign_call_def fc put_call_def)
  qed
qed

theorem render_pipeline_parameters_witness:
  "truthy (voiceKey_of req_ok) \<and> truthy (musicKey_of req_ok)
   \<and> filter is_ffmpeg (new_calls w0 (snd (render env_ok r2_ok req_ok w0))) =
       [Ffmpeg [lit ''https://signed.example/uploads/abc-voice.wav'',
                lit ''https://signed.example/uploads/def-music.wav'']
          [lit ''[0:a]volume=1.0[a0];[1:a]volume=0.8[a1];[a0][a1]amix=inputs=2:duration=shortest:dropout_transition=0[a]'']
          [lit ''-map [a]'', lit ''-ac 2'', lit ''-ar 44100'', lit ''-b:a 192k'']
          (lit ''/tmp/mix-1b4e28ba-2fa1-41d2-883f-0016d3cca427.mp3'')]"
proof -
  have h: "truthy (voiceKey_of req_ok) \<and> truthy (musicKey_of req_ok)
      \<and> presign env_ok (length (calls w0)) (GetSignedUrl (bucket r2_ok) (voiceKey_of req_ok) 600)
          = Some (lit ''https://signed.example/uploads/abc-voice.wav'')
      \<and> presign env_ok (Suc (length (calls w0))) (GetSignedUrl (bucket r2_ok) (musicKey_of req_ok) 600)
          = Some (lit ''https://signed.example/uploads/def-music.wav'')"
    by (simp add: run_defs name_defs lit_def)
  have "filter is_ffmpeg (new_calls w0 (snd (render env_ok r2_ok req_ok w0))) =
      [Ffmpeg [lit ''https://signed.example/uploads/abc-voice.wav'',
               lit ''https://signed.example/uploads/def-music.wav'']
         [mix_graph (lit ''1.0'') (lit ''0.8'') (lit ''shortest'') (lit ''0'')]
         (encoding (lit ''2'') (lit ''44100'') (lit ''192k''))
         (path_join env_ok (tmpdir env_ok)
            (lit ''mix-'' @ uuid_source env_ok (uuids_drawn w0) @ lit ''.mp3''))]"
    using render_pipeline_parameters [where env = env_ok and store = r2_ok and b = req_ok
        and w = w0 and voiceUrl = "lit ''https://signed.example/uploads/abc-voice.wav''"
        and musicUrl = "lit ''https://signed.example/uploads/def-music.wav''"] h
    by blast
  with h show ?thesis
    by (simp add: run_defs mix_graph_def volume_def amix_def encoding_def lit_def)
qed

text \<open>
  C6, as amended. A render request that passes validation asks for a signed URL for
  \<open>voiceKey\<close> once and, when that issuance succeeds, for a signed URL for \<open>musicKey\<close>
  once; it asks for no other. Each request names one key and has an expiry of exactly
  600 seconds. When the first issuance fails the handler stops, and no URL is requested
  for \<open>musicKey\<close>.
\<close>

theorem render_signed_url_requests:
  assumes "truthy (voiceKey_of b)" and "truthy (musicKey_of b)"
  shows "filter is_sign (new_calls w (snd (render env store b w))) =
     (case presign env (length (calls w)) (GetSignedUrl (bucket store) (voiceKey_of b) 600) of
        None \<Rightarrow> [GetSignedUrl (bucket store) (voiceKey_of b) 600]
      | Some voiceUrl \<Rightarrow>
          [GetSignedUrl (bucket store) (voiceKey_of b) 600,
           GetSignedUrl (bucket store) (musicKey_of b) 600])"
proof (cases rule: render_cases [where b = b and env = env and w = w and store = store])
  case invalid
  with assms show ?thesis
    by (auto simp: falsy_def)
next
  case sign1
  then show ?thesis
    by (simp add: render_sign1_fails new_calls_def sign_call_def)
next
  case (sign2 voiceUrl)
  then show ?thesis
    by (simp add: render_sign2_fails new_calls_def sign_call_def)
next
  case (ffmpeg voiceUrl musicUrl part)
  then show ?thesis
    by (simp add: render_ffmpeg_fails new_calls_def sign_call_def ffmpeg_call_def)
next
  case (read voiceUrl musicUrl out)
  then show ?thesis
    by (simp add: render_read_fails new_calls_def sign_call_def ffmpeg_call_def)
next
  case (put voiceUrl musicUrl out)
  then show ?thesis
    by (simp add: render_put_fails new_calls_def sign_call_def ffmpeg_call_def put_call_def)
next
  case (uploaded voiceUrl musicUrl out)
  then show ?thesis
    by (simp add: render_uploaded new_calls_def sign_call_def ffmpeg_call_def put_call_def)
qed

theorem render_signed_url_requests_witness:
  "truthy (voiceKey_of req_ok) \<and> truthy (musicKey_of req_ok)
   \<and> filter is_sign (new_calls w0 (snd (render env_ok r2_ok req_ok w0))) =
       [GetSignedUrl (Some (lit ''melody4u'')) (JStr (lit ''uploads/abc-voice.wav'')) 600,
        GetSignedUrl (Some (lit ''melody4u'')) (JStr (lit ''uploads/def-music.wav'')) 600]"
proof -
  have v: "truthy (voiceKey_of req_ok)" and m: "truthy (musicKey_of req_ok)"
    by (simp_all add: run_defs name_defs lit_def)
  from render_signed_url_requests [OF v m, of w0 env_ok r2_ok] v m show ?thesis
    by (simp add: run_defs name_defs lit_def)
qed

theorem render_one_url_when_first_issuance_fails:
  "truthy (voiceKey_of req_ok) \<and> truthy (musicKey_of req_ok)
   \<and> filter is_sign (new_calls w0 (snd (render env_sign_fails r2_ok req_ok w0))) =
       [GetSignedUrl (Some (lit ''melody4u'')) (JStr (lit ''uploads/abc-voice.wav'')) 600]
   \<and> GetSignedUrl (Some (lit ''melody4u'')) (JStr (lit ''uploads/def-music.wav'')) 600
       \<notin> set (new_calls w0 (snd (render env_sign_fails r2_ok req_ok w0)))"
proof -
  have v: "truthy (voiceKey_of req_ok)" and m: "truthy (musicKey_of req_ok)"
    by (simp_all add: run_defs name_defs lit_def)
  have "presign env_sign_fails (length (calls w0)) (sign_call r2_ok (voiceKey_of req_ok)) = None"
    by (simp add: run_defs)
  from render_sign1_fails [OF v m this] v m show ?thesis
    by (simp add: new_calls_def sign_call_def) (simp add: run_defs name_defs lit_def)
qed

text \<open>
  C3, as amended. A render request answered 200 carries the body
  \<open>{ok: true, outKey, url}\<close>: the member with the key is named \<open>outKey\<close>, not
  \<open>outputKey\<close>. Its value is \<open>output/<uuid>.mp3\<close> with the UUID drawn after the one of
  the temporary file, \<open>url\<close> is what \<open>publicUrl\<close> returns for that key, and the one
  object written to the store is written under that key with content type
  \<open>audio/mpeg\<close>.
\<close>

theorem render_success_response:
  fixes env store b w
  defines "res \<equiv> fst (render env store b w)" and "w' \<equiv> snd (render env store b w)"
  defines "outKey \<equiv> lit ''output/'' @ uuid_source env (Suc (uuids_drawn w)) @ lit ''.mp3''"
  assumes "status res = 200"
  shows "\<exists>url out.
           publicUrl (URL_hostname env) store outKey = Inr url
           \<and> body res = [(lit ''ok'', JBool True), (lit ''outKey'', JStr outKey), (lit ''url'', JStr url)]
           \<and> filter is_put (new_calls w w') =
               [PutObjectCommand (bucket store) outKey out (Some (lit ''audio/mpeg''))]
           \<and> objects w' outKey = Some (out, Some (lit ''audio/mpeg''))"
proof (cases rule: render_cases [where b = b and env = env and w = w and store = store])
  case invalid
  with assms show ?thesis
    by (simp add: render_invalid missing_keys_def json_def)
next
  case sign1
  with assms show ?thesis
    by (simp add: render_sign1_fails render_failed_def json_def)
next
  case (sign2 voiceUrl)
  with assms show ?thesis
    by (simp add: render_sign2_fails render_failed_def json_def)
next
  case (ffmpeg voiceUrl musicUrl part)
  with assms show ?thesis
    by (simp add: render_ffmpeg_fails render_failed_def json_def)
next
  case (read voiceUrl musicUrl out)
  with assms show ?thesis
    by (simp add: render_read_fails render_failed_def json_def)
next
  case (put voiceUrl musicUrl out)
  with assms show ?thesis
    by (simp add: render_put_fails render_failed_def json_def)
next
  case (uploaded voiceUrl musicUrl out)
  note eq = render_uploaded [OF uploaded]
  have k: "outKey_of env w = outKey"
    by (simp add: outKey_of_def outKey_def)
  show ?thesis
  proof (cases "publicUrl (URL_hostname env) store outKey")
    case (Inl e)
    with assms eq k show ?thesis
      by (simp add: render_failed_def json_def)
  next
    case (Inr url)
    with eq k show ?thesis
      by (simp add: res_def w'_def json_def new_calls_def sign_call_def ffmpeg_call_def put_call_def)
  qed
qed

theorem render_success_response_witness:
  "status (fst (render env_ok r2_ok req_ok w0)) = 200
   \<and> body (fst (render env_ok r2_ok req_ok w0)) =
       [(lit ''ok'', JBool True),
        (lit ''outKey'', JStr (lit ''output/6fa459ea-ee8a-4ca4-894e-db77e160355e.mp3'')),
        (lit ''url'', JStr (lit ''https://melody4u.acc.r2.cloudflarestorage.com/output/6fa459ea-ee8a-4ca4-894e-db77e160355e.mp3''))]
   \<and> (\<exists>out. filter is_put (new_calls w0 (snd (render env_ok r2_ok req_ok w0))) =
         [PutObjectCommand (Some (lit ''melody4u''))
            (lit ''output/6fa459ea-ee8a-4ca4-894e-db77e160355e.mp3'') out (Some (lit ''audio/mpeg''))])"
proof -
  have r: "status (fst (render env_ok r2_ok req_ok w0)) = 200"
    by (simp add: render_ok_run json_def)
  have k: "lit ''output/'' @ uuid_source env_ok (Suc (uuids_drawn w0)) @ lit ''.mp3''
      = lit ''output/6fa459ea-ee8a-4ca4-894e-db77e160355e.mp3''"
    by (simp add: run_defs lit_def)
  have b: "bucket r2_ok = Some (lit ''melody4u'')"
    by (simp add: r2_ok_def)
  from render_success_response [OF r] r show ?thesis
    unfolding k b publicUrl_ok_run by auto
qed

theorem render_success_has_no_outputKey:
  "status (fst (render env_ok r2_ok req_ok w0)) = 200
   \<and> map fst (body (fst (render env_ok r2_ok req_ok w0))) = [lit ''ok'', lit ''outKey'', lit ''url'']
   \<and> map_of (body (fst (render env_ok r2_ok req_ok w0))) (lit ''outputKey'') = None"
  by (simp add: render_ok_run json_def) (simp add: lit_def)

text \<open>
  C1. A run in which the mix succeeds and the upload fails: the handler answers 500,
  its last call is the failed \<open>PutObjectCommand\<close>, it never calls \<open>unlinkSync\<close>, and
  the temporary file is still there afterwards. The removal stands after the upload
  inside the \<open>try\<close> block, so a throw of the upload skips it.
\<close>

theorem render_upload_failure_keeps_staged_file:
  "status (fst (render env_upload_fails r2_ok req_ok w0)) = 500
   \<and> new_calls w0 (snd (render env_upload_fails r2_ok req_ok w0)) =
       [GetSignedUrl (Some (lit ''melody4u'')) (JStr (lit ''uploads/abc-voice.wav'')) 600,
        GetSignedUrl (Some (lit ''melody4u'')) (JStr (lit ''uploads/def-music.wav'')) 600,
        Ffmpeg [lit ''https://signed.example/uploads/abc-voice.wav'',
                lit ''https://signed.example/uploads/def-music.wav'']
          [filter_graph] output_options (lit ''/tmp/mix-1b4e28ba-2fa1-41d2-883f-0016d3cca427.mp3''),
        ReadFile (lit ''/tmp/mix-1b4e28ba-2fa1-41d2-883f-0016d3cca427.mp3''),
        PutObjectCommand (Some (lit ''melody4u''))
          (lit ''output/6fa459ea-ee8a-4ca4-894e-db77e160355e.mp3'') mp3_bytes (Some (lit ''audio/mpeg''))]
   \<and> filter is_unlink (new_calls w0 (snd (render env_upload_fails r2_ok req_ok w0))) = []
   \<and> files (snd (render env_upload_fails r2_ok req_ok w0))
         (lit ''/tmp/mix-1b4e28ba-2fa1-41d2-883f-0016d3cca427.mp3'') = Some mp3_bytes"
proof -
  have k: "outKey_of env_upload_fails w0 = lit ''output/6fa459ea-ee8a-4ca4-894e-db77e160355e.mp3''"
    by (simp add: outKey_of_def run_defs lit_def)
  have f: "outFile_of env_upload_fails w0 = lit ''/tmp/mix-1b4e28ba-2fa1-41d2-883f-0016d3cca427.mp3''"
    by (simp add: outFile_of_def run_defs lit_def)
  have "render env_upload_fails r2_ok req_ok w0 =
     (render_failed,
      w0\<lparr>calls := calls w0 @ [sign_call r2_ok (voiceKey_of req_ok), sign_call r2_ok (musicKey_of req_ok),
                              ffmpeg_call env_upload_fails w0 (lit ''https://signed.example/uploads/abc-voice.wav'')
                                (lit ''https://signed.example/uploads/def-music.wav''),
                              ReadFile (outFile_of env_upload_fails w0),
                              put_call env_upload_fails r2_ok w0 mp3_bytes],
        uuids_drawn := Suc (Suc (uuids_drawn w0)),
        files := (files w0)(outFile_of env_upload_fails w0 \<mapsto> mp3_bytes)\<rparr>)"
    by (rule render_put_fails) (simp_all add: run_defs name_defs lit_def)
  then show ?thesis
    unfolding k f
    by (simp add: sign_call_def ffmpeg_call_def put_call_def k f new_calls_def render_failed_def json_def)
      (simp add: run_defs name_defs lit_def)
qed

text \<open>
  C2. A run in which the pipeline fails and leaves a partial file: the handler answers
  500 and writes nothing to the store, but it never calls \<open>unlinkSync\<close> either, and
  the partial file is still there afterwards.
\<close>

theorem render_pipeline_failure_keeps_partial_file:
  "status (fst (render env_ffmpeg_fails r2_ok req_ok w0)) = 500
   \<and> new_calls w0 (snd (render env_ffmpeg_fails r2_ok req_ok w0)) =
       [GetSignedUrl (Some (lit ''melody4u'')) (JStr (lit ''uploads/abc-voice.wav'')) 600,
        GetSignedUrl (Some (lit ''melody4u'')) (JStr (lit ''uploads/def-music.wav'')) 600,
        Ffmpeg [lit ''https://signed.example/uploads/abc-voice.wav'',
                lit ''https://signed.example/uploads/def-music.wav'']
          [filter_graph] output_options (lit ''/tmp/mix-1b4e28ba-2fa1-41d2-883f-0016d3cca427.mp3'')]
   \<and> filter is_put (new_calls w0 (snd (render env_ffmpeg_fails r2_ok req_ok w0))) = []
   \<and> objects (snd (render env_ffmpeg_fails r2_ok req_ok w0)) = objects w0
   \<and> filter is_unlink (new_calls w0 (snd (render env_ffmpeg_fails r2_ok req_ok w0))) = []
   \<and> files (snd (render env_ffmpeg_fails r2_ok req_ok w0))
         (lit ''/tmp/mix-1b4e28ba-2fa1-41d2-883f-0016d3cca427.mp3'') = Some [0x49]"
proof -
  have f: "outFile_of env_ffmpeg_fails w0 = lit ''/tmp/mix-1b4e28ba-2fa1-41d2-883f-0016d3cca427.mp3''"
    by (simp add: outFile_of_def run_defs lit_def)
  have "render env_ffmpeg_fails r2_ok req_ok w0 =
     (render_failed,
      w0\<lparr>calls := calls w0 @ [sign_call r2_ok (voiceKey_of req_ok), sign_call r2_ok (musicKey_of req_ok),
                              ffmpeg_call env_ffmpeg_fails w0 (lit ''https://signed.example/uploads/abc-voice.wav'')
                                (lit ''https://signed.example/uploads/def-music.wav'')],
        uuids_drawn := Suc (uuids_drawn w0),
        files := (case Some [0x49] of None \<Rightarrow> files w0
                  | Some p \<Rightarrow> (files w0)(outFile_of env_ffmpeg_fails w0 \<mapsto> p))\<rparr>)"
    by (rule render_ffmpeg_fails) (simp_all add: run_defs name_defs lit_def)
  then show ?thesis
    unfolding f
    by (simp add: sign_call_def ffmpeg_call_def f new_calls_def render_failed_def json_def)
      (simp add: run_defs name_defs lit_def)
qed

text \<open>
  C7, as amended. When the stored endpoint parses as a URL and \<open>encodeURI\<close> accepts the
  key, \<open>publicUrl(key)\<close> is \<open>https://{bucket}.{accountId}.r2.cloudflarestorage.com/\<close>
  followed by \<open>encodeURI(key)\<close> when the host name of the endpoint ends with
  \<open>.r2.cloudflarestorage.com\<close>, and otherwise the stored endpoint, a trailing slash
  stripped, followed by \<open>/\<close> and \<open>encodeURI(key)\<close>. The key is percent-encoded, not
  copied: the encoded key is the key itself exactly when the key is made of characters
  \<open>encodeURI\<close> leaves alone, and so the result ends with the key itself exactly then.
\<close>

theorem publicUrl_value:
  fixes hostname_of this key e h k
  defines "base \<equiv> (if endsWith h (lit ''.r2.cloudflarestorage.com'')
                     then lit ''https://'' @ template (bucket this) @ lit ''.''
                            @ template (accountId this) @ lit ''.r2.cloudflarestorage.com/''
                     else strip_trailing_slash e @ lit ''/'')"
  assumes "endpoint this = Some e" and "hostname_of e = Some h" and "encodeURI key = Inr k"
  shows "publicUrl hostname_of this key = Inr (base @ k)
         \<and> ((k = key) = list_all uri_unescaped key)
         \<and> ((publicUrl hostname_of this key = Inr (base @ key)) = list_all uri_unescaped key)"
proof -
  have v: "publicUrl hostname_of this key = Inr (base @ k)"
    using assms(2-4) by (simp add: publicUrl_def template_def prepend_def base_def)
  have i: "(k = key) = list_all uri_unescaped key"
    using assms(4) by (rule encodeURI_identity_iff)
  from v i show ?thesis by simp
qed

theorem publicUrl_value_witness:
  "publicUrl hostname_table r2_ok (lit ''uploads/100%.mp3'')
     = Inr (lit ''https://melody4u.acc.r2.cloudflarestorage.com/uploads/100%25.mp3'')
   \<and> publicUrl hostname_table r2_custom (lit ''uploads/100%.mp3'')
     = Inr (lit ''https://cdn.example.com/uploads/100%25.mp3'')
   \<and> \<not> list_all uri_unescaped (lit ''uploads/100%.mp3'')
   \<and> publicUrl hostname_table r2_ok (lit ''output/a.mp3'')
     = Inr (lit ''https://melody4u.acc.r2.cloudflarestorage.com/output/a.mp3'')
   \<and> list_all uri_unescaped (lit ''output/a.mp3'')"
proof -
  have enc: "encodeURI (lit ''uploads/100%.mp3'') = Inr (lit ''uploads/100%25.mp3'')"
    by (simp add: prepend_def uri_unescaped_def is_lead_def is_trail_def escape_def utf8_def
        percent_def hex_digit_def lit_def)
  have plain: "encodeURI (lit ''output/a.mp3'') = Inr (lit ''output/a.mp3'')"
    by (simp add: prepend_def uri_unescaped_def lit_def)
  have e1: "endpoint r2_ok = Some (lit ''https://acc.r2.cloudflarestorage.com'')"
    by (simp add: r2_ok_def)
  have h1: "hostname_table (lit ''https://acc.r2.cloudflarestorage.com'')
      = Some (lit ''acc.r2.cloudflarestorage.com'')"
    by (simp add: hostname_table_def)
  have e2: "endpoint r2_custom = Some (lit ''https://cdn.example.com'')"
    by (simp add: r2_custom_def)
  have h2: "hostname_table (lit ''https://cdn.example.com'') = Some (lit ''cdn.example.com'')"
    by (simp add: hostname_table_def lit_def)
  have ne: "lit ''uploads/100%25.mp3'' \<noteq> lit ''uploads/100%.mp3''"
    by (simp add: lit_def)
  from publicUrl_value [where hostname_of = hostname_table, OF e1 h1 enc]
    publicUrl_value [where hostname_of = hostname_table, OF e2 h2 enc]
    publicUrl_value [where hostname_of = hostname_table, OF e1 h1 plain] ne
  show ?thesis
    by (simp add: endsWith_def template_def strip_trailing_slash_def r2_ok_def r2_custom_def
        uri_unescaped_def lit_def)
qed

theorem publicUrl_escapes_key:
  "publicUrl hostname_table r2_ok (lit ''uploads/100%.mp3'')
     = Inr (lit ''https://melody4u.acc.r2.cloudflarestorage.com/uploads/100%25.mp3'')
   \<and> publicUrl hostname_table r2_ok (lit ''uploads/100%.mp3'')
     \<noteq> Inr (lit ''https://melody4u.acc.r2.cloudflarestorage.com/'' @ lit ''uploads/100%.mp3'')"
  by (simp add: publicUrl_def r2_ok_def hostname_table_def template_def endsWith_def prepend_def
      uri_unescaped_def is_lead_def is_trail_def escape_def utf8_def percent_def hex_digit_def lit_def)

text \<open>
  C8, as amended. \<open>publicUrl\<close> is a function of the configuration and the key alone
  (it touches no collaborator), but it can fail when it is called, since the constructor
  checks nothing: it returns a URL exactly when the stored endpoint parses as a URL and
  the key has no unpaired surrogate. A missing or unparsable endpoint throws a
  \<open>TypeError\<close> at the call, an ill-formed key a \<open>URIError\<close>.
\<close>

theorem publicUrl_succeeds_iff:
  fixes hostname_of this key
  defines "parses \<equiv> (\<exists>h. hostname_of (template (endpoint this)) = Some h
                         \<and> (endsWith h (lit ''.r2.cloudflarestorage.com'') \<or> endpoint this \<noteq> None))"
  shows "((\<exists>url. publicUrl hostname_of this key = Inr url) = (parses \<and> well_formed key))
         \<and> ((publicUrl hostname_of this key = Inl TypeError) = (\<not> parses))
         \<and> ((publicUrl hostname_of this key = Inl URIError) = (parses \<and> \<not> well_formed key))"
proof (cases "hostname_of (template (endpoint this))")
  case None
  then show ?thesis by (simp add: publicUrl_def parses_def)
next
  case (Some h)
  show ?thesis
  proof (cases "endsWith h (lit ''.r2.cloudflarestorage.com'')")
    case True
    with Some show ?thesis
      by (simp add: publicUrl_def parses_def prepend_Inr prepend_Inl encodeURI_succeeds_iff
          encodeURI_fails_iff)
  next
    case False
    with Some show ?thesis
      by (cases "endpoint this")
        (simp_all add: publicUrl_def parses_def prepend_Inr prepend_Inl encodeURI_succeeds_iff
          encodeURI_fails_iff)
  qed
qed

theorem publicUrl_succeeds_iff_witness:
  "(\<exists>url. publicUrl hostname_table r2_ok (lit ''output/a.mp3'') = Inr url)
   \<and> well_formed (lit ''output/a.mp3'')
   \<and> (\<nexists>url. publicUrl hostname_table r2_ok [0xD800] = Inr url)
   \<and> (\<nexists>url. publicUrl hostname_table r2_missing (lit ''output/a.mp3'') = Inr url)"
proof -
  have w: "well_formed (lit ''output/a.mp3'')" "\<not> well_formed [0xD800]"
    by (simp_all add: is_lead_def is_trail_def lit_def)
  have h: "hostname_table (template (endpoint r2_ok)) = Some (lit ''acc.r2.cloudflarestorage.com'')"
    "endsWith (lit ''acc.r2.cloudflarestorage.com'') (lit ''.r2.cloudflarestorage.com'')"
    "hostname_table (template (endpoint r2_missing)) = None"
    by (simp_all add: r2_ok_def r2_missing_def template_def hostname_table_def endsWith_def lit_def)
  show ?thesis
    using publicUrl_succeeds_iff [of hostname_table r2_ok "lit ''output/a.mp3''"]
      publicUrl_succeeds_iff [of hostname_table r2_ok "[0xD800]"]
      publicUrl_succeeds_iff [of hostname_table r2_missing "lit ''output/a.mp3''"]
      w h
    by simp
qed

theorem publicUrl_fails_at_call_time:
  "R2_constructor accepts_all cfg_missing = Inr r2_missing
   \<and> publicUrl hostname_table r2_missing (lit ''output/a.mp3'') = Inl TypeError
   \<and> R2_constructor accepts_all cfg_ok = Inr r2_ok
   \<and> publicUrl hostname_table r2_ok [0xD800] = Inl URIError"
  by (simp add: R2_constructor_def Let_def accepts_all_def cfg_missing_def r2_missing_def cfg_ok_def r2_ok_def
      strip_trailing_slash_def publicUrl_def hostname_table_def template_def endsWith_def prepend_def
      uri_unescaped_def is_lead_def is_trail_def lit_def)

text \<open>
  C10. An upload without a file is answered 400 with
  \<open>{ok: false, error: "Missing file"}\<close> and leaves the world as it was. An upload with
  a file makes one store write, under the key \<open>uploads/<uuid>-<name>\<close>, where
  \<open><name>\<close> is the original file name with every maximal run of white space replaced
  by one hyphen, or \<open>upload.bin\<close> when the original name is absent (or empty); a 200
  answer carries that key.
\<close>

theorem upload_key:
  fixes env store f w
  defines "name \<equiv> (case originalname f of
                       None \<Rightarrow> lit ''upload.bin''
                     | Some n \<Rightarrow> if n = [] then lit ''upload.bin'' else hyphenate_runs n)"
  defines "key \<equiv> lit ''uploads/'' @ uuid_source env (uuids_drawn w) @ lit ''-'' @ name"
  shows "upload env store None w =
           (json 400 [(lit ''ok'', JBool False), (lit ''error'', JStr (lit ''Missing file''))], w)
         \<and> new_calls w (snd (upload env store (Some f) w)) =
             [PutObjectCommand (bucket store) key (buffer f) (or_undefined (mimetype f))]
         \<and> (status (fst (upload env store (Some f) w)) = 200 \<longrightarrow>
              (\<exists>url. body (fst (upload env store (Some f) w)) =
                 [(lit ''ok'', JBool True), (lit ''key'', JStr key), (lit ''url'', JStr url)]))"
proof -
  have n: "replace_spaces (or_default (originalname f) (lit ''upload.bin'')) = name"
    by (simp add: name_def or_default_def or_undefined_def upload_bin_unchanged
        replace_spaces_hyphenate [symmetric] split: option.splits)
  have k: "lit ''uploads/'' @ uuid_source env (uuids_drawn w) @ lit ''-''
      @ replace_spaces (or_default (originalname f) (lit ''upload.bin'')) = key"
    by (simp add: key_def n)
  have none: "upload env store None w =
      (json 400 [(lit ''ok'', JBool False), (lit ''error'', JStr (lit ''Missing file''))], w)"
    by (simp add: upload_def upload_try_def ret_def)
  have some: "upload env store (Some f) w =
      (if send_ok env (length (calls w))
            (PutObjectCommand (bucket store) key (buffer f) (or_undefined (mimetype f)))
       then (case publicUrl (URL_hostname env) store key of
               Inl e \<Rightarrow> json 500 [(lit ''ok'', JBool False), (lit ''error'', JStr (lit ''Upload failed''))]
             | Inr url \<Rightarrow> json 200 [(lit ''ok'', JBool True), (lit ''key'', JStr key), (lit ''url'', JStr url)])
       else json 500 [(lit ''ok'', JBool False), (lit ''error'', JStr (lit ''Upload failed''))],
       w\<lparr>calls := calls w @ [PutObjectCommand (bucket store) key (buffer f) (or_undefined (mimetype f))],
         uuids_drawn := Suc (uuids_drawn w),
         objects := (if send_ok env (length (calls w))
                          (PutObjectCommand (bucket store) key (buffer f) (or_undefined (mimetype f)))
                     then (objects w)(key \<mapsto> (buffer f, or_undefined (mimetype f)))
                     else objects w)\<rparr>)"
    by (simp add: upload_def upload_try_def io_defs or_undefined_idem Let_def k split: sum.splits)
  have trace: "new_calls w (snd (upload env store (Some f) w)) =
      [PutObjectCommand (bucket store) key (buffer f) (or_undefined (mimetype f))]"
    by (simp add: some new_calls_def)
  have ok: "\<exists>url. body (fst (upload env store (Some f) w)) =
      [(lit ''ok'', JBool True), (lit ''key'', JStr key), (lit ''url'', JStr url)]"
    if "status (fst (upload env store (Some f) w)) = 200"
  proof (cases "publicUrl (URL_hostname env) store key")
    case (Inl e)
    with that show ?thesis
      by (simp add: some json_def split: if_splits)
  next
    case (Inr url)
    with that show ?thesis
      by (simp add: some json_def split: if_splits)
  qed
  from none trace ok show ?thesis
    by blast
qed

theorem upload_key_witness:
  "upload env_ok r2_ok None w0 =
     (json 400 [(lit ''ok'', JBool False), (lit ''error'', JStr (lit ''Missing file''))], w0)
   \<and> new_calls w0 (snd (upload env_ok r2_ok (Some song) w0)) =
       [PutObjectCommand (Some (lit ''melody4u''))
          (lit ''uploads/1b4e28ba-2fa1-41d2-883f-0016d3cca427-my-song-1.mp3'')
          mp3_bytes (Some (lit ''audio/mpeg''))]
   \<and> status (fst (upload env_ok r2_ok (Some song) w0)) = 200
   \<and> (\<exists>url. body (fst (upload env_ok r2_ok (Some song) w0)) =
         [(lit ''ok'', JBool True),
          (lit ''key'', JStr (lit ''uploads/1b4e28ba-2fa1-41d2-883f-0016d3cca427-my-song-1.mp3'')),
          (lit ''url'', JStr url)])"
proof -
  have s: "status (fst (upload env_ok r2_ok (Some song) w0)) = 200"
    by (simp add: upload_ok_run json_def)
  have h: "hyphenate_runs (lit ''my  song 1.mp3'') = lit ''my-song-1.mp3''"
    by (simp add: replace_spaces_hyphenate [symmetric] is_space_def lit_def)
  have k: "lit ''uploads/'' @ uuid_source env_ok (uuids_drawn w0) @ lit ''-''
      @ (case originalname song of
           None \<Rightarrow> lit ''upload.bin''
         | Some n \<Rightarrow> if n = [] then lit ''upload.bin'' else hyphenate_runs n)
      = lit ''uploads/1b4e28ba-2fa1-41d2-883f-0016d3cca427-my-song-1.mp3''"
    by (simp add: song_def h) (simp add: run_defs lit_def)
  have m: "or_undefined (mimetype song) = Some (lit ''audio/mpeg'')"
    by (simp add: song_def or_undefined_def lit_def)
  have b: "bucket r2_ok = Some (lit ''melody4u'')" "buffer song = mp3_bytes"
    by (simp_all add: r2_ok_def song_def)
  from upload_key [of env_ok r2_ok w0 song] s show ?thesis
    unfolding k m b by blast
qed

end
